theory Spec2Isabelle
  imports Main
begin

section \<open>Errors\<close>

text \<open>
  \<^verbatim>\<open>NucypherConfigurationError\<close> is the one exception class of
  \<^verbatim>\<open>nucypher/config/utils.py\<close>; it carries its message. The other constructors are
  the exceptions of the Python runtime that the module lets through (operating-system
  failures of \<^verbatim>\<open>os.mkdir\<close> and \<^verbatim>\<open>open\<close>, parser and interpolation
  failures of \<^verbatim>\<open>configparser\<close>) or catches (\<^verbatim>\<open>KeyError\<close>).
\<close>

datatype os_error =
    FileExistsError
  | FileNotFoundError
  | IsADirectoryError
  | PermissionError
  | OtherOSError

datatype interpolation_error =
    InterpolationSyntaxError
  | InterpolationMissingOptionError
  | InterpolationDepthError

datatype error =
    NucypherConfigurationError string
  | OSError os_error
  | KeyError string
  | InterpolationError interpolation_error
  | ParsingError

section \<open>Passphrase validation\<close>

text \<open>
  \<^verbatim>\<open>validate_passphrase\<close> builds a tuple of (rule, failure message) pairs, the rule
  already evaluated, and walks it in order: the first rule that is not true raises, and
  the function returns \<^verbatim>\<open>True\<close> after the loop.
\<close>

fun check_rules :: "(bool \<times> string) list \<Rightarrow> error + bool" where
  "check_rules [] = Inr True"
| "check_rules ((rule, failure_message) # rules) =
     (if rule then check_rules rules
      else Inl (NucypherConfigurationError failure_message))"

definition validate_passphrase :: "string \<Rightarrow> error + bool" where
  "validate_passphrase passphrase =
     check_rules [(16 \<le> length passphrase, ''Passphrase is too short, must be >= 16 chars.'')]"

section \<open>Text helpers of the Python runtime\<close>

text \<open>
  \<^verbatim>\<open>str.format\<close> of an optional string argument (\<^verbatim>\<open>str(None)\<close> is the
  text \<^verbatim>\<open>None\<close>), \<^verbatim>\<open>str.lstrip(chars)\<close>, \<^verbatim>\<open>str.join\<close>, and
  \<^verbatim>\<open>str\<close> of a tuple of strings. \<open>repr_str\<close> is Python's \<^verbatim>\<open>repr\<close> for a
  string of printable characters without quotes or backslashes, which is all it is
  applied to here (the four mode names).
\<close>

definition newline :: char where
  "newline = CHR 0x0A"

definition quote :: char where
  "quote = CHR 0x27"

definition format_arg :: "string option \<Rightarrow> string" where
  "format_arg a = (case a of None \<Rightarrow> ''None'' | Some s \<Rightarrow> s)"

definition lstrip :: "string \<Rightarrow> string \<Rightarrow> string" where
  "lstrip chars s = dropWhile (\<lambda>c. c \<in> set chars) s"

fun join :: "string \<Rightarrow> string list \<Rightarrow> string" where
  "join sep [] = []"
| "join sep [x] = x"
| "join sep (x # y # zs) = x @ sep @ join sep (y # zs)"

definition repr_str :: "string \<Rightarrow> string" where
  "repr_str s = quote # s @ [quote]"

definition str_tuple :: "string list \<Rightarrow> string" where
  "str_tuple xs = ''('' @ join '', '' (map repr_str xs) @ '')''"

section \<open>The filesystem\<close>

text \<open>
  The module acts on the filesystem through \<^verbatim>\<open>os.path.isdir\<close>,
  \<^verbatim>\<open>os.path.exists\<close>, \<^verbatim>\<open>os.mkdir\<close> and \<^verbatim>\<open>open\<close>. The state holds the
  directories (with the mode they were created with), the regular files (with their
  text, as Python's text layer delivers it) and, for each path, the failure with which
  the operating system answers an attempt to create or open it for reasons the model does
  not track (permissions, a missing parent directory, a full disk). Paths are names: two
  different strings are two different paths. The empty path names nothing.
\<close>

record filesystem =
  dirs :: "string \<rightharpoonup> nat"
  files :: "string \<rightharpoonup> string"
  denied :: "string \<rightharpoonup> os_error"

definition isdir :: "string \<Rightarrow> filesystem \<Rightarrow> bool" where
  "isdir path fs =
     (if path = [] then False
      else case dirs fs path of None \<Rightarrow> False | Some m \<Rightarrow> True)"

definition path_exists :: "string \<Rightarrow> filesystem \<Rightarrow> bool" where
  "path_exists path fs =
     (if path = [] then False
      else if isdir path fs then True
      else case files fs path of None \<Rightarrow> False | Some t \<Rightarrow> True)"

definition mkdir :: "string \<Rightarrow> nat \<Rightarrow> filesystem \<Rightarrow> (error + unit) \<times> filesystem" where
  "mkdir path mode fs =
     (if path = [] then (Inl (OSError FileNotFoundError), fs)
      else if path_exists path fs then (Inl (OSError FileExistsError), fs)
      else case denied fs path of
             Some e \<Rightarrow> (Inl (OSError e), fs)
           | None \<Rightarrow> (Inr (), fs\<lparr>dirs := (dirs fs)(path \<mapsto> mode)\<rparr>))"

text \<open>
  A file object is a path and a position. \<^verbatim>\<open>open(path, 'r')\<close> needs an existing
  regular file; \<^verbatim>\<open>open(path, 'w+')\<close> creates the file or truncates it to the empty
  text. Both start at position 0.
\<close>

record handle =
  hpath :: string
  hpos :: nat

definition open_r :: "string \<Rightarrow> filesystem \<Rightarrow> error + handle" where
  "open_r path fs =
     (if path = [] then Inl (OSError FileNotFoundError)
      else if isdir path fs then Inl (OSError IsADirectoryError)
      else case files fs path of
             None \<Rightarrow> Inl (OSError FileNotFoundError)
           | Some t \<Rightarrow>
               (case denied fs path of
                  Some e \<Rightarrow> Inl (OSError e)
                | None \<Rightarrow> Inr \<lparr>hpath = path, hpos = 0\<rparr>))"

definition open_w_plus :: "string \<Rightarrow> filesystem \<Rightarrow> (error + handle) \<times> filesystem" where
  "open_w_plus path fs =
     (if path = [] then (Inl (OSError FileNotFoundError), fs)
      else if isdir path fs then (Inl (OSError IsADirectoryError), fs)
      else case denied fs path of
             Some e \<Rightarrow> (Inl (OSError e), fs)
           | None \<Rightarrow> (Inr \<lparr>hpath = path, hpos = 0\<rparr>, fs\<lparr>files := (files fs)(path \<mapsto> [])\<rparr>))"

definition file_text :: "string \<Rightarrow> filesystem \<Rightarrow> string" where
  "file_text path fs = (case files fs path of None \<Rightarrow> [] | Some t \<Rightarrow> t)"

text \<open>\<^verbatim>\<open>f.read()\<close>: the text from the position to the end of the file.\<close>

definition read_all :: "handle \<Rightarrow> filesystem \<Rightarrow> string \<times> handle" where
  "read_all h fs =
     (let t = file_text (hpath h) fs
      in (drop (hpos h) t, h\<lparr>hpos := max (hpos h) (length t)\<rparr>))"

text \<open>
  \<^verbatim>\<open>f.write(s)\<close>: the text \<open>s\<close> replaces what is at the position (a position
  beyond the end is padded with NUL characters) and the position moves behind it.
\<close>

definition write_str :: "handle \<Rightarrow> string \<Rightarrow> filesystem \<Rightarrow> handle \<times> filesystem" where
  "write_str h s fs =
     (let t = file_text (hpath h) fs;
          t' = take (hpos h) t @ replicate (hpos h - length t) (CHR 0x00) @ s
                 @ drop (hpos h + length s) t
      in (h\<lparr>hpos := hpos h + length s\<rparr>, fs\<lparr>files := (files fs)(hpath h \<mapsto> t')\<rparr>))"

text \<open>
  \<^verbatim>\<open>f.writelines(xs)\<close> writes the items of \<open>xs\<close> one after the other. The module
  passes it a string, whose items are its characters.
\<close>

fun writelines :: "handle \<Rightarrow> string list \<Rightarrow> filesystem \<Rightarrow> handle \<times> filesystem" where
  "writelines h [] fs = (h, fs)"
| "writelines h (x # xs) fs = (case write_str h x fs of (h', fs') \<Rightarrow> writelines h' xs fs')"

definition items :: "string \<Rightarrow> string list" where
  "items s = map (\<lambda>c. [c]) s"

text \<open>
  Iterating a text file yields its lines: \<^verbatim>\<open>readline\<close> takes the characters up to
  and including the next newline (or up to the end of the text), and the iteration stops
  at the empty line that the end of the file gives.
\<close>

fun readline :: "string \<Rightarrow> string \<times> string" where
  "readline [] = ([], [])"
| "readline (c # cs) =
     (if c = newline then ([c], cs)
      else case readline cs of (l, r) \<Rightarrow> (c # l, r))"

lemma readline_rest_length: "length (snd (readline s)) \<le> length s"
  by (induction s) (auto split: prod.splits)

function readlines :: "string \<Rightarrow> string list" where
  "readlines s =
     (case s of
        [] \<Rightarrow> []
      | c # cs \<Rightarrow> fst (readline (c # cs)) # readlines (snd (readline (c # cs))))"
  by pat_completeness auto
termination
proof (relation "measure length")
  show "wf (measure length)" by simp
next
  fix s :: string and c cs
  assume "s = c # cs"
  have "length (snd (readline (c # cs))) \<le> length cs"
    using readline_rest_length [of cs] by (auto split: prod.splits)
  then show "(snd (readline (c # cs)), s) \<in> measure length"
    using \<open>s = c # cs\<close> by simp
qed

declare readlines.simps [simp del]

definition file_lines :: "handle \<Rightarrow> filesystem \<Rightarrow> string list" where
  "file_lines h fs = readlines (drop (hpos h) (file_text (hpath h) fs))"

definition islice :: "'a list \<Rightarrow> nat \<Rightarrow> 'a list" where
  "islice xs start = drop start xs"

section \<open>Sequencing of failing, state-changing steps\<close>

text \<open>
  An exception ends the function with the state as it is at that point: nothing is
  rolled back.
\<close>

definition then_do ::
  "('s \<Rightarrow> (error + 'a) \<times> 's) \<Rightarrow> ('a \<Rightarrow> 's \<Rightarrow> (error + 'b) \<times> 's) \<Rightarrow> 's \<Rightarrow> (error + 'b) \<times> 's" where
  "then_do m f s = (case m s of (Inl e, s') \<Rightarrow> (Inl e, s') | (Inr v, s') \<Rightarrow> f v s')"

section \<open>The path constants\<close>

text \<open>
  \<^verbatim>\<open>nucypher.config.constants\<close> is imported by the module and is not part of it:
  its ten paths are parameters of the model.
\<close>

record constants =
  DEFAULT_CONFIG_ROOT :: string
  DEFAULT_INI_FILEPATH :: string
  DEFAULT_KEYRING_ROOT :: string
  DEFAULT_KNOWN_NODE_DIR :: string
  DEFAULT_SEED_NODE_DIR :: string
  DEFAULT_KNOWN_CERTIFICATES_DIR :: string
  DEFAULT_SEED_CERTIFICATES_DIR :: string
  DEFAULT_SEED_METADATA_DIR :: string
  DEFAULT_KNOWN_METADATA_DIR :: string
  TEMPLATE_INI_FILEPATH :: string

section \<open>Writing the default ini file\<close>

text \<open>
  \<^verbatim>\<open>write_default_ini_config\<close> opens the template for reading, then the destination
  with \<^verbatim>\<open>'w+'\<close>, reads the destination, and copies the template's lines from index
  12 on, each through \<^verbatim>\<open>lstrip(';')\<close> and \<^verbatim>\<open>writelines\<close>. The template is
  read for the first time inside the loop, so after the destination was opened; the
  loop writes to the destination only, and when the destination is the template file
  itself that file is empty by then and the loop has no line to copy. The lines are
  therefore those of the template in the state that \<^verbatim>\<open>open(filepath, 'w+')\<close> leaves.
  The message of the error is the literal of the source, which is never formatted.
\<close>

fun copy_lines :: "string list \<Rightarrow> handle \<Rightarrow> filesystem \<Rightarrow> handle \<times> filesystem" where
  "copy_lines [] new_file fs = (new_file, fs)"
| "copy_lines (line # rest) new_file fs =
     (case writelines new_file (items (lstrip '';'' line)) fs of
        (new_file', fs') \<Rightarrow> copy_lines rest new_file' fs')"

definition write_default_ini_config ::
  "constants \<Rightarrow> string \<Rightarrow> filesystem \<Rightarrow> (error + unit) \<times> filesystem" where
  "write_default_ini_config c filepath fs =
     (case open_r (TEMPLATE_INI_FILEPATH c) fs of
        Inl e \<Rightarrow> (Inl e, fs)
      | Inr template_file \<Rightarrow>
          (case open_w_plus filepath fs of
             (Inl e, fs1) \<Rightarrow> (Inl e, fs1)
           | (Inr new_file, fs1) \<Rightarrow>
               (case read_all new_file fs1 of
                  (content, new_file1) \<Rightarrow>
                    if content \<noteq> [] then
                      (Inl (NucypherConfigurationError
                         ''{} is not a blank file.  Do you have an existing configuration?''), fs1)
                    else
                      (case copy_lines (islice (file_lines template_file fs1) 12) new_file1 fs1 of
                         (new_file2, fs2) \<Rightarrow> (Inr (), fs2)))))"

section \<open>Creating the configuration tree\<close>

text \<open>
  \<^verbatim>\<open>initialize_configuration\<close>: the argument is \<^verbatim>\<open>None\<close> or a string, and an
  empty string is as false as \<^verbatim>\<open>None\<close> in \<^verbatim>\<open>config_root if config_root else ...\<close>.
  The modes are \<^verbatim>\<open>0o755\<close> = 493 and \<^verbatim>\<open>0o700\<close> = 448. The function returns its
  argument \<^verbatim>\<open>config_root\<close>.
\<close>

definition initialize_configuration ::
  "constants \<Rightarrow> string option \<Rightarrow> filesystem \<Rightarrow> (error + string option) \<times> filesystem" where
  "initialize_configuration c config_root fs =
     (let root = (case config_root of
                    None \<Rightarrow> DEFAULT_CONFIG_ROOT c
                  | Some r \<Rightarrow> if r = [] then DEFAULT_CONFIG_ROOT c else r)
      in if isdir root fs then
           (Inl (NucypherConfigurationError
              (''There are existing nucypher configuration files at '' @ format_arg config_root)), fs)
         else
           then_do (mkdir root 493) (\<lambda>u.
           then_do (mkdir (DEFAULT_KEYRING_ROOT c) 448) (\<lambda>u.
           then_do (mkdir (DEFAULT_KNOWN_NODE_DIR c) 493) (\<lambda>u.
           then_do (mkdir (DEFAULT_KNOWN_CERTIFICATES_DIR c) 493) (\<lambda>u.
           then_do (mkdir (DEFAULT_KNOWN_METADATA_DIR c) 493) (\<lambda>u.
           then_do (mkdir (DEFAULT_SEED_NODE_DIR c) 493) (\<lambda>u.
           then_do (mkdir (DEFAULT_SEED_CERTIFICATES_DIR c) 493) (\<lambda>u.
           then_do (mkdir (DEFAULT_SEED_METADATA_DIR c) 493) (\<lambda>u.
           then_do (write_default_ini_config c (DEFAULT_INI_FILEPATH c)) (\<lambda>u fs'.
           (Inr config_root, fs')))))))))) fs)"

section \<open>Checking that the configuration tree exists\<close>

definition check_config_tree :: "constants \<Rightarrow> string option \<Rightarrow> filesystem \<Rightarrow> error + bool" where
  "check_config_tree c configuration_dir fs =
     (let path = (case configuration_dir of
                    None \<Rightarrow> DEFAULT_CONFIG_ROOT c
                  | Some d \<Rightarrow> if d = [] then DEFAULT_CONFIG_ROOT c else d)
      in if path_exists path fs then Inr True
         else Inl (NucypherConfigurationError
                (''No Nucypher configuration directory found at '' @ format_arg configuration_dir @ ''.'')))"

section \<open>Validating the ini document\<close>

text \<open>
  The document is what the mapping interface of \<^verbatim>\<open>configparser\<close> shows: the
  section names in order, and for each section the options that a lookup finds in it
  (its own and the parser's defaults) with their values as stored.
  \<^verbatim>\<open>config[s]\<close> and \<^verbatim>\<open>config[s][k]\<close> raise \<^verbatim>\<open>KeyError\<close> on a name that is
  not there. The parser of ini text belongs to the Python library and is a parameter;
  \<^verbatim>\<open>ConfigParser.read\<close> skips a file that it cannot open, which leaves a document
  without sections.
\<close>

type_synonym ini_section = "(string \<times> string) list"
type_synonym config = "(string \<times> ini_section) list"
type_synonym ini_parser = "string \<Rightarrow> error + config"

definition sections :: "config \<Rightarrow> string list" where
  "sections config = map fst config"

definition config_getitem :: "config \<Rightarrow> string \<Rightarrow> error + ini_section" where
  "config_getitem config name =
     (case map_of config name of None \<Rightarrow> Inl (KeyError name) | Some sec \<Rightarrow> Inr sec)"

text \<open>
  \<^verbatim>\<open>optionxform\<close> lowers the case of an option name (here for the letters A to Z).
\<close>

definition lower_char :: "char \<Rightarrow> char" where
  "lower_char c =
     (if (65::nat) \<le> of_char c then
        (if of_char c \<le> (90::nat) then char_of (of_char c + (32::nat)) else c)
      else c)"

definition optionxform :: "string \<Rightarrow> string" where
  "optionxform name = map lower_char name"

text \<open>
  The parser that the function builds, \<^verbatim>\<open>configparser.ConfigParser()\<close>, interpolates
  a stored value when it is looked up (\<^verbatim>\<open>BasicInterpolation.before_get\<close>):
  \<^verbatim>\<open>%%\<close> stands for a percent sign, \<^verbatim>\<open>%(name)s\<close> for the value of the option
  \<^verbatim>\<open>name\<close>, itself interpolated one level deeper if it holds a percent sign, and
  any other use of the percent sign is a syntax error. The depth is bounded by
  \<^verbatim>\<open>MAX_INTERPOLATION_DEPTH\<close> = 10. \<open>match_key\<close> is the regular expression
  \<^verbatim>\<open>%\(([^)]+)\)s\<close> applied behind the two characters \<^verbatim>\<open>%(\<close>: it gives the
  name and the text behind the reference.
\<close>

definition MAX_INTERPOLATION_DEPTH :: nat where
  "MAX_INTERPOLATION_DEPTH = 10"

definition match_key :: "string \<Rightarrow> (string \<times> string) option" where
  "match_key s =
     (case takeWhile (\<lambda>c. c \<noteq> CHR '')'') s of
        [] \<Rightarrow> None
      | n # ns \<Rightarrow>
          (case dropWhile (\<lambda>c. c \<noteq> CHR '')'') s of
             paren # c # rest \<Rightarrow> if c = CHR ''s'' then Some (n # ns, rest) else None
           | other \<Rightarrow> None))"

lemma match_key_length: "match_key s = Some (var, rest) \<Longrightarrow> length rest < length s"
proof -
  assume m: "match_key s = Some (var, rest)"
  have "length (dropWhile (\<lambda>c. c \<noteq> CHR '')'') s) \<le> length s"
    by (rule length_dropWhile_le)
  with m show ?thesis
    by (auto simp: match_key_def split: list.splits if_splits)
qed

function interpolate_some :: "ini_section \<Rightarrow> nat \<Rightarrow> string \<Rightarrow> interpolation_error + string" where
  "interpolate_some options depth rest =
     (if MAX_INTERPOLATION_DEPTH < depth then Inl InterpolationDepthError
      else
        (case rest of
           [] \<Rightarrow> Inr []
         | c # cs \<Rightarrow>
             if c = CHR ''%'' then
               (case cs of
                  [] \<Rightarrow> Inl InterpolationSyntaxError
                | c' # cs' \<Rightarrow>
                    if c' = CHR ''%'' then
                      (case interpolate_some options depth cs' of
                         Inl e \<Rightarrow> Inl e
                       | Inr accum \<Rightarrow> Inr (CHR ''%'' # accum))
                    else if c' = CHR ''('' then
                      (case match_key cs' of
                         None \<Rightarrow> Inl InterpolationSyntaxError
                       | Some (var, rest') \<Rightarrow>
                           (case map_of options (optionxform var) of
                              None \<Rightarrow> Inl InterpolationMissingOptionError
                            | Some v \<Rightarrow>
                                (case (if CHR ''%'' \<in> set v
                                       then interpolate_some options (Suc depth) v
                                       else Inr v) of
                                   Inl e \<Rightarrow> Inl e
                                 | Inr accum1 \<Rightarrow>
                                     (case interpolate_some options depth rest' of
                                        Inl e \<Rightarrow> Inl e
                                      | Inr accum2 \<Rightarrow> Inr (accum1 @ accum2)))))
                    else Inl InterpolationSyntaxError)
             else
               (case interpolate_some options depth cs of
                  Inl e \<Rightarrow> Inl e
                | Inr accum \<Rightarrow> Inr (c # accum))))"
  by pat_completeness auto
termination
  by (relation "measures [\<lambda>(options, depth, rest). Suc MAX_INTERPOLATION_DEPTH - depth,
                          \<lambda>(options, depth, rest). length rest]")
     (auto dest: match_key_length)

declare interpolate_some.simps [simp del]

definition before_get :: "ini_section \<Rightarrow> string \<Rightarrow> error + string" where
  "before_get options v =
     (case interpolate_some options 1 v of
        Inl ie \<Rightarrow> Inl (InterpolationError ie)
      | Inr accum \<Rightarrow> Inr accum)"

text \<open>
  \<^verbatim>\<open>config[s][k]\<close>: \<^verbatim>\<open>KeyError\<close> when the section has no option \<open>k\<close>, else the
  stored value through the interpolation, with the section's options as the names that
  a reference can use.
\<close>

definition section_getitem :: "ini_section \<Rightarrow> string \<Rightarrow> error + string" where
  "section_getitem sec key =
     (case map_of sec (optionxform key) of
        None \<Rightarrow> Inl (KeyError key)
      | Some v \<Rightarrow> before_get sec v)"

definition config_read :: "ini_parser \<Rightarrow> string \<Rightarrow> filesystem \<Rightarrow> error + config" where
  "config_read parser filepath fs =
     (case open_r filepath fs of
        Inl e \<Rightarrow> Inr []
      | Inr h \<Rightarrow> parser (fst (read_all h fs)))"

definition load_config ::
  "ini_parser \<Rightarrow> config option \<Rightarrow> string \<Rightarrow> filesystem \<Rightarrow> error + config" where
  "load_config parser config filepath fs =
     (case config of None \<Rightarrow> config_read parser filepath fs | Some cfg \<Rightarrow> Inr cfg)"

definition required_sections :: "string list" where
  "required_sections = [''nucypher'', ''blockchain'']"

definition modes :: "string list" where
  "modes = [''federated'', ''testing'', ''decentralized'', ''centralized'']"

text \<open>\<^verbatim>\<open>config["nucypher"]["mode"]\<close>, the body of the \<^verbatim>\<open>try\<close>.\<close>

definition lookup_operating_mode :: "config \<Rightarrow> error + string" where
  "lookup_operating_mode config =
     (case config_getitem config ''nucypher'' of
        Inl e \<Rightarrow> Inl e
      | Inr sec \<Rightarrow> section_getitem sec ''mode'')"

text \<open>The \<^verbatim>\<open>else\<close> branch of the \<^verbatim>\<open>try\<close>: the mode must be one of the four.\<close>

definition check_mode :: "string \<Rightarrow> bool \<Rightarrow> string list \<Rightarrow> error + string list" where
  "check_mode operating_mode raise_on_failure missing_sections =
     (if operating_mode \<in> set modes then Inr missing_sections
      else if raise_on_failure then
        Inl (NucypherConfigurationError
          (''Invalid nucypher operating mode '' @ [quote] @ operating_mode @ [quote]
             @ ''. Specify '' @ str_tuple modes))
      else Inr (missing_sections @ [''mode'']))"

text \<open>The loop over the required sections, with the list of missing names it extends.\<close>

fun check_sections :: "string list \<Rightarrow> config \<Rightarrow> bool \<Rightarrow> string list \<Rightarrow> error + string list" where
  "check_sections [] config raise_on_failure missing_sections = Inr missing_sections"
| "check_sections (s # rest) config raise_on_failure missing_sections =
     (if s \<in> set (sections config) then
        check_sections rest config raise_on_failure missing_sections
      else if raise_on_failure then
        Inl (NucypherConfigurationError
          (''Invalid config file: missing section '' @ [quote] @ s @ [quote]))
      else check_sections rest config raise_on_failure (missing_sections @ [s]))"

definition validate_nucypher_ini_config ::
  "ini_parser \<Rightarrow> config option \<Rightarrow> string \<Rightarrow> bool \<Rightarrow> filesystem \<Rightarrow> error + bool \<times> string list" where
  "validate_nucypher_ini_config parser config filepath raise_on_failure fs =
     (case load_config parser config filepath fs of
        Inl e \<Rightarrow> Inl e
      | Inr cfg \<Rightarrow>
          if sections cfg = [] then
            Inl (NucypherConfigurationError ''Empty configuration file'')
          else
            (case lookup_operating_mode cfg of
               Inl (KeyError k) \<Rightarrow> Inl (NucypherConfigurationError ''No operating mode configured'')
             | Inl e \<Rightarrow> Inl e
             | Inr operating_mode \<Rightarrow>
                 (case check_mode operating_mode raise_on_failure [] of
                    Inl e \<Rightarrow> Inl e
                  | Inr missing1 \<Rightarrow>
                      (case check_sections required_sections cfg raise_on_failure missing1 of
                         Inl e \<Rightarrow> Inl e
                       | Inr missing_sections \<Rightarrow>
                           if 0 < length missing_sections then Inr (False, missing_sections)
                           else Inr (True, [])))))"

section \<open>Example inputs\<close>

text \<open>
  A layout of the ten paths as the application's constants module derives them from one
  root, a template of twelve header lines followed by three commented lines, and a
  filesystem that holds the template and nothing else.
\<close>

definition example_constants :: constants where
  "example_constants =
     \<lparr>DEFAULT_CONFIG_ROOT = ''/cfg'',
      DEFAULT_INI_FILEPATH = ''/cfg/nucypher.ini'',
      DEFAULT_KEYRING_ROOT = ''/cfg/keyring'',
      DEFAULT_KNOWN_NODE_DIR = ''/cfg/known_nodes'',
      DEFAULT_SEED_NODE_DIR = ''/cfg/seed_nodes'',
      DEFAULT_KNOWN_CERTIFICATES_DIR = ''/cfg/known_nodes/certificates'',
      DEFAULT_SEED_CERTIFICATES_DIR = ''/cfg/seed_nodes/certificates'',
      DEFAULT_SEED_METADATA_DIR = ''/cfg/seed_nodes/metadata'',
      DEFAULT_KNOWN_METADATA_DIR = ''/cfg/known_nodes/metadata'',
      TEMPLATE_INI_FILEPATH = ''/pkg/.nucypher.ini''\<rparr>"

definition example_template :: string where
  "example_template =
     ''; 1\<newline>; 2\<newline>; 3\<newline>; 4\<newline>; 5\<newline>; 6\<newline>; 7\<newline>; 8\<newline>; 9\<newline>; 10\<newline>; 11\<newline>; 12\<newline>[nucypher]\<newline>;mode = federated\<newline>;;[blockchain]''"

definition example_filesystem :: filesystem where
  "example_filesystem =
     \<lparr>dirs = Map.empty,
      files = [''/pkg/.nucypher.ini'' \<mapsto> example_template],
      denied = Map.empty\<rparr>"

definition example_existing_root :: filesystem where
  "example_existing_root = example_filesystem\<lparr>dirs := [''/cfg'' \<mapsto> 493]\<rparr>"

definition example_old_ini :: filesystem where
  "example_old_ini =
     example_filesystem\<lparr>files := (files example_filesystem)
       (''/cfg/nucypher.ini'' \<mapsto> ''[nucypher]\<newline>mode = testing\<newline>'')\<rparr>"

definition no_parser :: ini_parser where
  "no_parser text = Inl ParsingError"

section \<open>Properties of passphrase validation\<close>

text \<open>
  C4: a passphrase of fewer than 16 characters raises the configuration error with the
  too-short message, a passphrase of 16 characters or more returns true, and no
  passphrase makes the function return false.
\<close>

theorem validate_passphrase_length:
  "(length passphrase < 16 \<longrightarrow>
      validate_passphrase passphrase =
        Inl (NucypherConfigurationError ''Passphrase is too short, must be >= 16 chars.''))
   \<and> (16 \<le> length passphrase \<longrightarrow> validate_passphrase passphrase = Inr True)
   \<and> validate_passphrase passphrase \<noteq> Inr False"
  by (simp add: validate_passphrase_def)

theorem validate_passphrase_length_witness:
  "length ''short'' < 16
   \<and> validate_passphrase ''short'' =
        Inl (NucypherConfigurationError ''Passphrase is too short, must be >= 16 chars.'')
   \<and> 16 \<le> length ''correct horse battery''
   \<and> validate_passphrase ''correct horse battery'' = Inr True"
  using validate_passphrase_length [of "''short''"]
    validate_passphrase_length [of "''correct horse battery''"]
  by simp

section \<open>Properties of the ini validation\<close>

lemma str_tuple_modes:
  "str_tuple modes = ''('federated', 'testing', 'decentralized', 'centralized')''"
  by (simp add: str_tuple_def modes_def repr_str_def quote_def)

lemma map_of_in_sections:
  "map_of config name = Some sec \<Longrightarrow> name \<in> set (sections config)"
  by (auto simp: sections_def dest: map_of_SomeD intro: rev_image_eqI)

lemma optionxform_mode: "optionxform ''mode'' = ''mode''"
  by (simp add: optionxform_def lower_char_def)

text \<open>A value without a percent sign is its own interpolation.\<close>

lemma interpolate_some_plain:
  "CHR ''%'' \<notin> set s \<Longrightarrow> depth \<le> MAX_INTERPOLATION_DEPTH \<Longrightarrow>
   interpolate_some options depth s = Inr s"
proof (induction s)
  case Nil
  then show ?case by (subst interpolate_some.simps) simp
next
  case (Cons c cs)
  then have "interpolate_some options depth cs = Inr cs" by simp
  with Cons.prems show ?case by (subst interpolate_some.simps) auto
qed

lemma before_get_plain: "CHR ''%'' \<notin> set v \<Longrightarrow> before_get options v = Inr v"
  by (simp add: before_get_def interpolate_some_plain MAX_INTERPOLATION_DEPTH_def)

lemma before_get_mode: "m \<in> set modes \<Longrightarrow> before_get options m = Inr m"
  by (rule before_get_plain) (auto simp: modes_def)

text \<open>The lookup of a stored value fails with interpolation errors only.\<close>

lemma before_get_error: "before_get options v = Inl e \<Longrightarrow> \<exists>ie. e = InterpolationError ie"
  by (auto simp: before_get_def split: sum.splits)

lemma lookup_operating_mode_cases:
  "lookup_operating_mode config =
     (case map_of config ''nucypher'' of
        None \<Rightarrow> Inl (KeyError ''nucypher'')
      | Some sec \<Rightarrow> (case map_of sec ''mode'' of
                      None \<Rightarrow> Inl (KeyError ''mode'')
                    | Some v \<Rightarrow> before_get sec v))"
  by (simp add: lookup_operating_mode_def config_getitem_def section_getitem_def
      optionxform_mode split: option.splits)

lemma check_sections_required:
  "''nucypher'' \<in> set (sections config) \<Longrightarrow>
   check_sections required_sections config raise_on_failure missing =
     (if ''blockchain'' \<in> set (sections config) then Inr missing
      else if raise_on_failure then
        Inl (NucypherConfigurationError (''Invalid config file: missing section 'blockchain'' @ [CHR 0x27]))
      else Inr (missing @ [''blockchain'']))"
  by (simp add: required_sections_def quote_def)

text \<open>The result of the validation, by the outcome of the lookup of the mode.\<close>

lemma validate_of_key_error:
  "load_config parser config filepath fs = Inr cfg \<Longrightarrow> sections cfg \<noteq> [] \<Longrightarrow>
   lookup_operating_mode cfg = Inl (KeyError k) \<Longrightarrow>
   validate_nucypher_ini_config parser config filepath raise_on_failure fs =
     Inl (NucypherConfigurationError ''No operating mode configured'')"
  by (simp add: validate_nucypher_ini_config_def)

lemma validate_of_interpolation_error:
  "load_config parser config filepath fs = Inr cfg \<Longrightarrow> sections cfg \<noteq> [] \<Longrightarrow>
   lookup_operating_mode cfg = Inl (InterpolationError ie) \<Longrightarrow>
   validate_nucypher_ini_config parser config filepath raise_on_failure fs =
     Inl (InterpolationError ie)"
  by (simp add: validate_nucypher_ini_config_def)

lemma validate_of_mode:
  "load_config parser config filepath fs = Inr cfg \<Longrightarrow>
   ''nucypher'' \<in> set (sections cfg) \<Longrightarrow>
   lookup_operating_mode cfg = Inr m \<Longrightarrow>
   validate_nucypher_ini_config parser config filepath raise_on_failure fs =
     (if m \<in> set modes then
        (if ''blockchain'' \<in> set (sections cfg) then Inr (True, [])
         else if raise_on_failure then
           Inl (NucypherConfigurationError
             (''Invalid config file: missing section 'blockchain'' @ [CHR 0x27]))
         else Inr (False, [''blockchain'']))
      else if raise_on_failure then
        Inl (NucypherConfigurationError
          (''Invalid nucypher operating mode '' @ [CHR 0x27] @ m @ [CHR 0x27] @
           ''. Specify ('federated', 'testing', 'decentralized', 'centralized')''))
      else Inr (False, ''mode'' #
             (if ''blockchain'' \<in> set (sections cfg) then [] else [''blockchain''])))"
proof -
  assume l: "load_config parser config filepath fs = Inr cfg"
    and n: "''nucypher'' \<in> set (sections cfg)"
    and m: "lookup_operating_mode cfg = Inr m"
  from n have "sections cfg \<noteq> []" by auto
  with l n m show ?thesis
    by (simp add: validate_nucypher_ini_config_def check_mode_def check_sections_required
        str_tuple_modes quote_def)
qed

text \<open>
  C3: whatever \<open>raise_on_failure\<close> is, the validation raises the configuration error
  ``Empty configuration file'' exactly when the document has no section, and the
  configuration error ``No operating mode configured'' exactly when the document has a
  section but lacks the section \<open>nucypher\<close> or the key \<open>mode\<close> in it. Both results
  are errors, so no pair is returned in either case. These are the only two cases of a
  configuration error that does not depend on \<open>raise_on_failure\<close>: with the flag false,
  the validation raises a configuration error exactly in these two cases.
\<close>

theorem validate_early_errors:
  assumes "load_config parser config filepath fs = Inr cfg"
  shows "(validate_nucypher_ini_config parser config filepath raise_on_failure fs =
            Inl (NucypherConfigurationError ''Empty configuration file'')
          \<longleftrightarrow> sections cfg = [])
       \<and> (validate_nucypher_ini_config parser config filepath raise_on_failure fs =
            Inl (NucypherConfigurationError ''No operating mode configured'')
          \<longleftrightarrow> sections cfg \<noteq> [] \<and>
              (case map_of cfg ''nucypher'' of
                 None \<Rightarrow> True
               | Some sec \<Rightarrow> map_of sec ''mode'' = None))
       \<and> ((\<exists>msg. validate_nucypher_ini_config parser config filepath False fs =
                   Inl (NucypherConfigurationError msg))
          \<longleftrightarrow> sections cfg = [] \<or>
              (case map_of cfg ''nucypher'' of
                 None \<Rightarrow> True
               | Some sec \<Rightarrow> map_of sec ''mode'' = None))"
proof (cases "sections cfg = []")
  case True
  then have "cfg = []" by (simp add: sections_def)
  then show ?thesis using assms by (simp add: validate_nucypher_ini_config_def sections_def)
next
  case nonempty: False
  show ?thesis
  proof (cases "lookup_operating_mode cfg")
    case (Inr m)
    then obtain sec v where s: "map_of cfg ''nucypher'' = Some sec" "map_of sec ''mode'' = Some v"
      by (auto simp: lookup_operating_mode_cases split: option.splits)
    from s(1) have "''nucypher'' \<in> set (sections cfg)" by (rule map_of_in_sections)
    with assms Inr have
      "validate_nucypher_ini_config parser config filepath r fs \<noteq>
         Inl (NucypherConfigurationError ''Empty configuration file'')"
      "validate_nucypher_ini_config parser config filepath r fs \<noteq>
         Inl (NucypherConfigurationError ''No operating mode configured'')"
      "validate_nucypher_ini_config parser config filepath False fs \<noteq>
         Inl (NucypherConfigurationError msg)" for r msg
      by (simp_all add: validate_of_mode)
    with nonempty s show ?thesis by simp
  next
    case (Inl e)
    show ?thesis
    proof (cases "\<exists>k. e = KeyError k")
      case True
      then obtain k where k: "e = KeyError k" by blast
      have absent: "case map_of cfg ''nucypher'' of
                      None \<Rightarrow> True
                    | Some sec \<Rightarrow> map_of sec ''mode'' = None"
      proof (cases "map_of cfg ''nucypher''")
        case None
        then show ?thesis by simp
      next
        case (Some sec)
        show ?thesis
        proof (cases "map_of sec ''mode''")
          case None
          with Some show ?thesis by simp
        next
          case (Some v)
          with \<open>map_of cfg ''nucypher'' = Some sec\<close> Inl k
          have "before_get sec v = Inl (KeyError k)"
            by (simp add: lookup_operating_mode_cases)
          then have "\<exists>ie. KeyError k = InterpolationError ie"
            by (rule before_get_error)
          then show ?thesis by simp
        qed
      qed
      have "validate_nucypher_ini_config parser config filepath r fs =
              Inl (NucypherConfigurationError ''No operating mode configured'')" for r
        using assms nonempty Inl k by (simp add: validate_of_key_error)
      with nonempty absent show ?thesis by simp
    next
      case False
      then obtain sec v where s: "map_of cfg ''nucypher'' = Some sec" "map_of sec ''mode'' = Some v"
        using Inl by (auto simp: lookup_operating_mode_cases split: option.splits)
      with Inl have "before_get sec v = Inl e" by (simp add: lookup_operating_mode_cases)
      then have "\<exists>ie. e = InterpolationError ie"
        by (rule before_get_error)
      then obtain ie where "e = InterpolationError ie" by blast
      with assms nonempty Inl have
        "validate_nucypher_ini_config parser config filepath r fs = Inl (InterpolationError ie)"
        for r
        by (simp add: validate_of_interpolation_error)
      with nonempty s show ?thesis by simp
    qed
  qed
qed

theorem validate_early_errors_witness:
  "load_config no_parser None ''/cfg/nucypher.ini'' example_filesystem = Inr []
   \<and> validate_nucypher_ini_config no_parser None ''/cfg/nucypher.ini'' False example_filesystem =
        Inl (NucypherConfigurationError ''Empty configuration file'')
   \<and> validate_nucypher_ini_config no_parser (Some [(''blockchain'', [])]) [] True example_filesystem =
        Inl (NucypherConfigurationError ''No operating mode configured'')
   \<and> validate_nucypher_ini_config no_parser (Some [(''nucypher'', [(''key'', ''v'')])]) [] False
        example_filesystem =
        Inl (NucypherConfigurationError ''No operating mode configured'')"
proof -
  have l: "load_config no_parser None ''/cfg/nucypher.ini'' example_filesystem = Inr []"
    by (simp add: load_config_def config_read_def open_r_def isdir_def example_filesystem_def)
  have m: "load_config no_parser (Some cfg) [] example_filesystem = Inr cfg" for cfg
    by (simp add: load_config_def)
  show ?thesis
    using l validate_early_errors [OF l, of False]
      validate_early_errors [OF m, of "[(''blockchain'', [])]" True]
      validate_early_errors [OF m, of "[(''nucypher'', [(''key'', ''v'')])]" False]
    by (simp add: sections_def)
qed


text \<open>
  C5: a document with a section \<open>nucypher\<close> whose key \<open>mode\<close> holds one of the four
  modes, and with a section \<open>blockchain\<close>, validates to \<open>(True, ())\<close>, whatever
  \<open>raise_on_failure\<close> is.
\<close>

theorem validate_complete_document:
  assumes "load_config parser config filepath fs = Inr cfg"
    and "map_of cfg ''nucypher'' = Some sec"
    and "map_of sec ''mode'' = Some m"
    and "m \<in> set modes"
    and "''blockchain'' \<in> set (sections cfg)"
  shows "validate_nucypher_ini_config parser config filepath raise_on_failure fs = Inr (True, [])"
proof -
  have n: "''nucypher'' \<in> set (sections cfg)"
    using assms(2) by (rule map_of_in_sections)
  have "lookup_operating_mode cfg = Inr m"
    using assms(2,3,4) by (simp add: lookup_operating_mode_cases before_get_mode)
  then show ?thesis
    using assms(1,4,5) n by (simp add: validate_of_mode)
qed

theorem validate_complete_document_witness:
  "''federated'' \<in> set modes
   \<and> validate_nucypher_ini_config no_parser
        (Some [(''nucypher'', [(''mode'', ''federated'')]), (''blockchain'', [])]) [] True
        example_filesystem = Inr (True, [])
   \<and> validate_nucypher_ini_config no_parser
        (Some [(''nucypher'', [(''mode'', ''federated'')]), (''blockchain'', [])]) [] False
        example_filesystem = Inr (True, [])"
proof -
  let ?cfg = "[(''nucypher'', [(''mode'', ''federated'')]), (''blockchain'', [])]"
  have l: "load_config no_parser (Some ?cfg) [] example_filesystem = Inr ?cfg"
    by (simp add: load_config_def)
  have n: "map_of ?cfg ''nucypher'' = Some [(''mode'', ''federated'')]" by simp
  have k: "map_of [(''mode'', ''federated'')] ''mode'' = Some ''federated''" by simp
  have v: "''federated'' \<in> set modes" by (simp add: modes_def)
  have b: "''blockchain'' \<in> set (sections ?cfg)" by (simp add: sections_def)
  show ?thesis
    using v validate_complete_document [OF l n k v b, of True]
      validate_complete_document [OF l n k v b, of False]
    by simp
qed


text \<open>
  C6: a document with a valid mode and no section \<open>blockchain\<close> validates to
  \<open>(False, ('blockchain',))\<close> when \<open>raise_on_failure\<close> is false, and raises the
  configuration error that names the missing section \<open>blockchain\<close> when it is true.
\<close>

theorem validate_missing_blockchain:
  assumes "load_config parser config filepath fs = Inr cfg"
    and "map_of cfg ''nucypher'' = Some sec"
    and "map_of sec ''mode'' = Some m"
    and "m \<in> set modes"
    and "''blockchain'' \<notin> set (sections cfg)"
  shows "validate_nucypher_ini_config parser config filepath False fs = Inr (False, [''blockchain''])
       \<and> validate_nucypher_ini_config parser config filepath True fs =
           Inl (NucypherConfigurationError (''Invalid config file: missing section 'blockchain'' @ [CHR 0x27]))"
proof -
  have n: "''nucypher'' \<in> set (sections cfg)"
    using assms(2) by (rule map_of_in_sections)
  have "lookup_operating_mode cfg = Inr m"
    using assms(2,3,4) by (simp add: lookup_operating_mode_cases before_get_mode)
  then show ?thesis
    using assms(1,4,5) n by (simp add: validate_of_mode)
qed

theorem validate_missing_blockchain_witness:
  "''testing'' \<in> set modes
   \<and> ''blockchain'' \<notin> set (sections [(''nucypher'', [(''mode'', ''testing'')])])
   \<and> validate_nucypher_ini_config no_parser (Some [(''nucypher'', [(''mode'', ''testing'')])]) []
        False example_filesystem = Inr (False, [''blockchain''])
   \<and> validate_nucypher_ini_config no_parser (Some [(''nucypher'', [(''mode'', ''testing'')])]) []
        True example_filesystem =
        Inl (NucypherConfigurationError
          (''Invalid config file: missing section 'blockchain'' @ [CHR 0x27]))"
proof -
  let ?cfg = "[(''nucypher'', [(''mode'', ''testing'')])]"
  have l: "load_config no_parser (Some ?cfg) [] example_filesystem = Inr ?cfg"
    by (simp add: load_config_def)
  have n: "map_of ?cfg ''nucypher'' = Some [(''mode'', ''testing'')]" by simp
  have k: "map_of [(''mode'', ''testing'')] ''mode'' = Some ''testing''" by simp
  have v: "''testing'' \<in> set modes" by (simp add: modes_def)
  have b: "''blockchain'' \<notin> set (sections ?cfg)" by (simp add: sections_def)
  show ?thesis
    using v b validate_missing_blockchain [OF l n k v b] by simp
qed


text \<open>
  C7 (amended): in a document whose section \<open>nucypher\<close> has the key \<open>mode\<close>, when the
  lookup of the value, which interpolates it, gives a value outside the four modes, the
  validation raises, if \<open>raise_on_failure\<close> is true, the configuration error whose
  message quotes the value and lists the four modes, and returns, if it is false,
  \<open>False\<close> with a list of missing names that starts with \<open>mode\<close> (followed by
  \<open>blockchain\<close> if that section is missing too); when the interpolation of the stored
  value fails, the validation raises the interpolation error, whatever the flag is.
\<close>

theorem validate_invalid_mode:
  assumes "load_config parser config filepath fs = Inr cfg"
    and "map_of cfg ''nucypher'' = Some sec"
    and "map_of sec ''mode'' = Some v"
  shows "(before_get sec v = Inr m \<and> m \<notin> set modes \<longrightarrow>
           validate_nucypher_ini_config parser config filepath True fs =
             Inl (NucypherConfigurationError
               (''Invalid nucypher operating mode '' @ [CHR 0x27] @ m @ [CHR 0x27] @
                ''. Specify ('federated', 'testing', 'decentralized', 'centralized')''))
         \<and> validate_nucypher_ini_config parser config filepath False fs =
             Inr (False, ''mode'' #
                    (if ''blockchain'' \<in> set (sections cfg) then [] else [''blockchain''])))
       \<and> (before_get sec v = Inl e \<longrightarrow>
           validate_nucypher_ini_config parser config filepath True fs = Inl e
         \<and> validate_nucypher_ini_config parser config filepath False fs = Inl e)"
proof -
  have n: "''nucypher'' \<in> set (sections cfg)"
    using assms(2) by (rule map_of_in_sections)
  then have nonempty: "sections cfg \<noteq> []" by auto
  have l: "lookup_operating_mode cfg = before_get sec v"
    using assms(2,3) by (simp add: lookup_operating_mode_cases)
  have good: "validate_nucypher_ini_config parser config filepath True fs =
             Inl (NucypherConfigurationError
               (''Invalid nucypher operating mode '' @ [CHR 0x27] @ m @ [CHR 0x27] @
                ''. Specify ('federated', 'testing', 'decentralized', 'centralized')''))
         \<and> validate_nucypher_ini_config parser config filepath False fs =
             Inr (False, ''mode'' #
                    (if ''blockchain'' \<in> set (sections cfg) then [] else [''blockchain'']))"
    if "before_get sec v = Inr m" "m \<notin> set modes"
    using that l assms(1) n by (simp add: validate_of_mode)
  have bad: "validate_nucypher_ini_config parser config filepath True fs = Inl e
         \<and> validate_nucypher_ini_config parser config filepath False fs = Inl e"
    if "before_get sec v = Inl e"
  proof -
    from that have "\<exists>ie. e = InterpolationError ie"
      by (rule before_get_error)
    then obtain ie where "e = InterpolationError ie" by blast
    with that l assms(1) nonempty show ?thesis
      by (simp add: validate_of_interpolation_error)
  qed
  from good bad show ?thesis by blast
qed

theorem validate_invalid_mode_witness:
  "before_get [(''mode'', ''unsupported_value'')] ''unsupported_value'' = Inr ''unsupported_value''
   \<and> ''unsupported_value'' \<notin> set modes
   \<and> validate_nucypher_ini_config no_parser
        (Some [(''nucypher'', [(''mode'', ''unsupported_value'')]), (''blockchain'', [])]) [] True
        example_filesystem =
        Inl (NucypherConfigurationError
          (''Invalid nucypher operating mode 'unsupported_value'' @ [CHR 0x27] @
           ''. Specify ('federated', 'testing', 'decentralized', 'centralized')''))
   \<and> validate_nucypher_ini_config no_parser
        (Some [(''nucypher'', [(''mode'', ''unsupported_value'')]), (''blockchain'', [])]) [] False
        example_filesystem = Inr (False, [''mode''])
   \<and> before_get [(''mode'', ''%(name)s'')] ''%(name)s'' =
        Inl (InterpolationError InterpolationMissingOptionError)
   \<and> validate_nucypher_ini_config no_parser
        (Some [(''nucypher'', [(''mode'', ''%(name)s'')])]) [] False example_filesystem =
        Inl (InterpolationError InterpolationMissingOptionError)"
proof -
  let ?cfg = "[(''nucypher'', [(''mode'', ''unsupported_value'')]), (''blockchain'', [])]"
  let ?bad = "[(''nucypher'', [(''mode'', ''%(name)s'')])]"
  have l: "load_config no_parser (Some c) [] example_filesystem = Inr c" for c
    by (simp add: load_config_def)
  have n: "map_of ?cfg ''nucypher'' = Some [(''mode'', ''unsupported_value'')]" by simp
  have k: "map_of [(''mode'', ''unsupported_value'')] ''mode'' = Some ''unsupported_value''"
    by simp
  have g: "before_get [(''mode'', ''unsupported_value'')] ''unsupported_value'' =
             Inr ''unsupported_value''"
    by (rule before_get_plain) simp
  have v: "''unsupported_value'' \<notin> set modes" by (simp add: modes_def)
  have n': "map_of ?bad ''nucypher'' = Some [(''mode'', ''%(name)s'')]" by simp
  have k': "map_of [(''mode'', ''%(name)s'')] ''mode'' = Some ''%(name)s''" by simp
  have g': "before_get [(''mode'', ''%(name)s'')] ''%(name)s'' =
              Inl (InterpolationError InterpolationMissingOptionError)"
    by (simp add: before_get_def interpolate_some.simps MAX_INTERPOLATION_DEPTH_def
        match_key_def optionxform_def lower_char_def)
  show ?thesis
    using g v g'
      validate_invalid_mode [OF l n k, of "''unsupported_value''"]
      validate_invalid_mode [OF l n' k', where e = "InterpolationError InterpolationMissingOptionError"]
    by (simp add: sections_def)
qed

text \<open>
  The document \<^verbatim>\<open>[nucypher] mode = 100%\<close> has a mode outside the four, and the
  validation raises neither the configuration error nor returns a list of missing names:
  the lookup fails in the interpolation, and that error is not caught.
\<close>

theorem validate_invalid_mode_counterexample:
  "''100%'' \<notin> set modes
   \<and> map_of [(''nucypher'', [(''mode'', ''100%'')]), (''blockchain'', [])] ''nucypher'' =
        Some [(''mode'', ''100%'')]
   \<and> validate_nucypher_ini_config no_parser
        (Some [(''nucypher'', [(''mode'', ''100%'')]), (''blockchain'', [])]) [] True
        example_filesystem = Inl (InterpolationError InterpolationSyntaxError)
   \<and> validate_nucypher_ini_config no_parser
        (Some [(''nucypher'', [(''mode'', ''100%'')]), (''blockchain'', [])]) [] False
        example_filesystem = Inl (InterpolationError InterpolationSyntaxError)"
  by (simp add: modes_def validate_nucypher_ini_config_def load_config_def sections_def
      lookup_operating_mode_cases before_get_def interpolate_some.simps
      MAX_INTERPOLATION_DEPTH_def)

section \<open>Properties of writing the default ini file\<close>


lemma readlines_Nil: "readlines [] = []"
  by (simp add: readlines.simps)

lemma readlines_Cons:
  "readlines (c # cs) = fst (readline (c # cs)) # readlines (snd (readline (c # cs)))"
  by (subst readlines.simps) simp

lemma readline_append: "fst (readline s) @ snd (readline s) = s"
  by (induction s) (auto split: prod.splits)

lemma concat_readlines: "concat (readlines s) = s"
proof (induction s rule: readlines.induct)
  case (1 s)
  show ?case
  proof (cases s)
    case Nil
    then show ?thesis by (simp add: readlines_Nil)
  next
    case (Cons c cs)
    with 1 have "concat (readlines (snd (readline (c # cs)))) = snd (readline (c # cs))"
      by simp
    then show ?thesis
      using readline_append [of "c # cs"] Cons
      by (simp only: readlines_Cons concat.simps)
  qed
qed

lemma open_w_plus_reads_empty:
  "open_w_plus path fs = (Inr h, fs1) \<Longrightarrow> fst (read_all h fs1) = []"
  by (auto simp: open_w_plus_def read_all_def file_text_def Let_def
      split: if_splits option.splits)

text \<open>
  C2: for every destination, \<^verbatim>\<open>write_default_ini_config\<close> never raises a configuration
  error, so never the one of its ``not a blank file'' guard: the guard reads the handle
  that \<^verbatim>\<open>'w+'\<close> has just truncated, and that read is the empty string.
\<close>

theorem write_default_ini_config_blank_guard:
  "fst (write_default_ini_config c filepath fs) \<noteq> Inl (NucypherConfigurationError msg)"
proof (cases "open_r (TEMPLATE_INI_FILEPATH c) fs")
  case (Inl e)
  then show ?thesis
    by (auto simp: write_default_ini_config_def open_r_def split: if_splits option.splits)
next
  case (Inr template_file)
  show ?thesis
  proof (cases "open_w_plus filepath fs")
    case (Pair r fs1)
    show ?thesis
    proof (cases r)
      case (Inl e)
      with Pair Inr show ?thesis
        by (auto simp: write_default_ini_config_def open_w_plus_def
            split: if_splits option.splits)
    next
      case new: (Inr new_file)
      with Pair have "fst (read_all new_file fs1) = []"
        using open_w_plus_reads_empty by simp
      with Pair Inr new show ?thesis
        by (auto simp: write_default_ini_config_def split: prod.splits)
    qed
  qed
qed

theorem write_default_ini_config_blank_guard_witness:
  "files example_old_ini ''/cfg/nucypher.ini'' = Some ''[nucypher]\<newline>mode = testing\<newline>''
   \<and> fst (write_default_ini_config example_constants ''/cfg/nucypher.ini'' example_old_ini) \<noteq>
        Inl (NucypherConfigurationError
          ''{} is not a blank file.  Do you have an existing configuration?'')"
  using write_default_ini_config_blank_guard [of example_constants "''/cfg/nucypher.ini''"
      example_old_ini "''{} is not a blank file.  Do you have an existing configuration?''"]
  by (simp add: example_old_ini_def)


lemma write_str_append:
  "files fs (hpath h) = Some t \<Longrightarrow> hpos h = length t \<Longrightarrow>
   write_str h s fs =
     (h\<lparr>hpos := length t + length s\<rparr>, fs\<lparr>files := (files fs)(hpath h \<mapsto> t @ s)\<rparr>)"
  by (simp add: write_str_def file_text_def Let_def)

lemma writelines_items:
  "files fs (hpath h) = Some t \<Longrightarrow> hpos h = length t \<Longrightarrow>
   writelines h (items s) fs =
     (h\<lparr>hpos := length t + length s\<rparr>, fs\<lparr>files := (files fs)(hpath h \<mapsto> t @ s)\<rparr>)"
proof (induction s arbitrary: h fs t)
  case Nil
  then show ?case by (cases h, cases fs) (auto simp: items_def)
next
  case (Cons a s)
  define h1 where "h1 = h\<lparr>hpos := length t + 1\<rparr>"
  define fs1 where "fs1 = fs\<lparr>files := (files fs)(hpath h \<mapsto> t @ [a])\<rparr>"
  have w: "write_str h [a] fs = (h1, fs1)"
    using write_str_append [OF Cons.prems, of "[a]"] by (simp add: h1_def fs1_def)
  have "writelines h1 (items s) fs1 =
        (h1\<lparr>hpos := length (t @ [a]) + length s\<rparr>,
         fs1\<lparr>files := (files fs1)(hpath h1 \<mapsto> (t @ [a]) @ s)\<rparr>)"
    by (rule Cons.IH) (simp_all add: h1_def fs1_def)
  moreover have "h1\<lparr>hpos := length (t @ [a]) + length s\<rparr> = h\<lparr>hpos := length t + length (a # s)\<rparr>"
    by (simp add: h1_def)
  moreover have "fs1\<lparr>files := (files fs1)(hpath h1 \<mapsto> (t @ [a]) @ s)\<rparr> =
                 fs\<lparr>files := (files fs)(hpath h \<mapsto> t @ a # s)\<rparr>"
    by (simp add: h1_def fs1_def)
  moreover have "writelines h (items (a # s)) fs = writelines h1 (items s) fs1"
    using w by (simp add: items_def)
  ultimately show ?case by (simp only:)
qed

lemma copy_lines_append:
  "files fs (hpath h) = Some t \<Longrightarrow> hpos h = length t \<Longrightarrow>
   copy_lines ls h fs =
     (h\<lparr>hpos := length t + length (concat (map (lstrip '';'') ls))\<rparr>,
      fs\<lparr>files := (files fs)(hpath h \<mapsto> t @ concat (map (lstrip '';'') ls))\<rparr>)"
proof (induction ls arbitrary: h fs t)
  case Nil
  then show ?case by (cases h, cases fs) auto
next
  case (Cons l ls)
  define s where "s = lstrip '';'' l"
  define h1 where "h1 = h\<lparr>hpos := length t + length s\<rparr>"
  define fs1 where "fs1 = fs\<lparr>files := (files fs)(hpath h \<mapsto> t @ s)\<rparr>"
  have w: "writelines h (items s) fs = (h1, fs1)"
    unfolding h1_def fs1_def using Cons.prems by (rule writelines_items)
  have "copy_lines ls h1 fs1 =
        (h1\<lparr>hpos := length (t @ s) + length (concat (map (lstrip '';'') ls))\<rparr>,
         fs1\<lparr>files := (files fs1)(hpath h1 \<mapsto> (t @ s) @ concat (map (lstrip '';'') ls))\<rparr>)"
    by (rule Cons.IH) (simp_all add: h1_def fs1_def)
  moreover have "h1\<lparr>hpos := length (t @ s) + length (concat (map (lstrip '';'') ls))\<rparr> =
                 h\<lparr>hpos := length t + length (concat (map (lstrip '';'') (l # ls)))\<rparr>"
    by (simp add: h1_def s_def)
  moreover have "fs1\<lparr>files := (files fs1)(hpath h1 \<mapsto> (t @ s) @ concat (map (lstrip '';'') ls))\<rparr> =
                 fs\<lparr>files := (files fs)(hpath h \<mapsto> t @ concat (map (lstrip '';'') (l # ls)))\<rparr>"
    by (simp add: h1_def fs1_def s_def)
  moreover have "copy_lines (l # ls) h fs = copy_lines ls h1 fs1"
    using w by (simp add: s_def)
  ultimately show ?case by (simp only:)
qed

text \<open>
  C8 (amended): when the template can be read and the destination can be opened,
  \<^verbatim>\<open>write_default_ini_config\<close> returns, and nothing of the filesystem changes but
  the destination's text. If the destination is a path other than the template's, that
  text is the template's lines from the 13th on, in order, each without its leading
  \<open>;\<close> characters; if the destination is the template file itself, the file is left
  empty and nothing is copied.
\<close>

theorem write_default_ini_config_copies_template:
  assumes "open_r (TEMPLATE_INI_FILEPATH c) fs = Inr template_file"
    and "fst (open_w_plus filepath fs) = Inr new_file"
  shows "write_default_ini_config c filepath fs =
           (Inr (), fs\<lparr>files := (files fs)(filepath \<mapsto>
              (if filepath = TEMPLATE_INI_FILEPATH c then []
               else concat (map (lstrip '';'')
                      (drop 12 (readlines (file_text (TEMPLATE_INI_FILEPATH c) fs))))))\<rparr>)"
proof -
  let ?fs1 = "fs\<lparr>files := (files fs)(filepath \<mapsto> [])\<rparr>"
  have t: "template_file = \<lparr>hpath = TEMPLATE_INI_FILEPATH c, hpos = 0\<rparr>"
    using assms(1) by (auto simp: open_r_def split: if_splits option.splits)
  have o: "open_w_plus filepath fs = (Inr new_file, ?fs1)"
    and n: "new_file = \<lparr>hpath = filepath, hpos = 0\<rparr>"
    using assms(2) by (auto simp: open_w_plus_def split: if_splits option.splits)
  have r: "read_all new_file ?fs1 = ([], new_file)"
    using n by (simp add: read_all_def file_text_def)
  have l: "file_lines template_file ?fs1 =
             (if filepath = TEMPLATE_INI_FILEPATH c then []
              else readlines (file_text (TEMPLATE_INI_FILEPATH c) fs))"
    using t by (simp add: file_lines_def file_text_def readlines_Nil)
  have "copy_lines ls new_file ?fs1 =
          (new_file\<lparr>hpos := length ([]::string) + length (concat (map (lstrip '';'') ls))\<rparr>,
           ?fs1\<lparr>files := (files ?fs1)(hpath new_file \<mapsto> [] @ concat (map (lstrip '';'') ls))\<rparr>)"
    for ls
    by (rule copy_lines_append) (simp_all add: n)
  then show ?thesis
    using assms(1) o r l n
    by (simp add: write_default_ini_config_def islice_def)
qed

theorem write_default_ini_config_copies_template_witness:
  "open_r (TEMPLATE_INI_FILEPATH example_constants) example_filesystem =
     Inr \<lparr>hpath = ''/pkg/.nucypher.ini'', hpos = 0\<rparr>
   \<and> fst (open_w_plus ''/cfg/nucypher.ini'' example_filesystem) =
     Inr \<lparr>hpath = ''/cfg/nucypher.ini'', hpos = 0\<rparr>
   \<and> write_default_ini_config example_constants ''/cfg/nucypher.ini'' example_filesystem =
       (Inr (), example_filesystem\<lparr>files := (files example_filesystem)
          (''/cfg/nucypher.ini'' \<mapsto> ''[nucypher]\<newline>mode = federated\<newline>[blockchain]'')\<rparr>)"
proof -
  have r: "open_r (TEMPLATE_INI_FILEPATH example_constants) example_filesystem =
             Inr \<lparr>hpath = ''/pkg/.nucypher.ini'', hpos = 0\<rparr>"
    by (simp add: open_r_def isdir_def example_constants_def example_filesystem_def)
  have w: "fst (open_w_plus ''/cfg/nucypher.ini'' example_filesystem) =
             Inr \<lparr>hpath = ''/cfg/nucypher.ini'', hpos = 0\<rparr>"
    by (simp add: open_w_plus_def isdir_def example_filesystem_def)
  have d: "''/cfg/nucypher.ini'' \<noteq> TEMPLATE_INI_FILEPATH example_constants"
    by (simp add: example_constants_def)
  have t: "file_text (TEMPLATE_INI_FILEPATH example_constants) example_filesystem =
             example_template"
    by (simp add: file_text_def example_constants_def example_filesystem_def)
  have e: "concat (map (lstrip '';'') (drop 12 (readlines example_template))) =
             ''[nucypher]\<newline>mode = federated\<newline>[blockchain]''"
    by (simp add: example_template_def readlines_Cons readlines_Nil newline_def lstrip_def)
  show ?thesis
    using r w d write_default_ini_config_copies_template [OF r w] by (simp add: t e)
qed

text \<open>
  With the template file itself as destination the call returns and the file is empty
  afterwards, while the template's lines from the 13th on, stripped, are not the empty
  text.
\<close>

theorem write_default_ini_config_copies_template_counterexample:
  "fst (write_default_ini_config example_constants ''/pkg/.nucypher.ini'' example_filesystem) =
     Inr ()
   \<and> files example_filesystem (TEMPLATE_INI_FILEPATH example_constants) = Some example_template
   \<and> files (snd (write_default_ini_config example_constants ''/pkg/.nucypher.ini''
        example_filesystem)) ''/pkg/.nucypher.ini'' = Some []
   \<and> concat (map (lstrip '';'') (drop 12 (readlines example_template))) =
        ''[nucypher]\<newline>mode = federated\<newline>[blockchain]''"
proof -
  have "file_lines \<lparr>hpath = ''/pkg/.nucypher.ini'', hpos = 0\<rparr>
          (example_filesystem\<lparr>files := (files example_filesystem)(''/pkg/.nucypher.ini'' \<mapsto> [])\<rparr>) = []"
    by (simp add: file_lines_def file_text_def readlines_Nil)
  moreover have "concat (map (lstrip '';'') (drop 12 (readlines example_template))) =
             ''[nucypher]\<newline>mode = federated\<newline>[blockchain]''"
    by (simp add: example_template_def readlines_Cons readlines_Nil newline_def lstrip_def)
  ultimately show ?thesis
    by (simp add: write_default_ini_config_def open_r_def open_w_plus_def isdir_def
        read_all_def file_text_def islice_def example_constants_def example_filesystem_def)
qed

section \<open>Properties of creating and checking the configuration tree\<close>

lemma then_do_InrE:
  assumes "then_do m f s = (Inr v, s')"
  obtains u s1 where "m s = (Inr u, s1)" and "f u s1 = (Inr v, s')"
  using assms by (auto simp: then_do_def split: prod.splits sum.splits)

lemma mkdir_Inr:
  "mkdir p m fs = (Inr u, fs') \<Longrightarrow> p \<noteq> [] \<and> fs' = fs\<lparr>dirs := (dirs fs)(p \<mapsto> m)\<rparr>"
  by (auto simp: mkdir_def split: if_splits option.splits)

lemma mkdir_isdir_self: "mkdir p m fs = (Inr u, fs') \<Longrightarrow> isdir p fs'"
  by (auto dest!: mkdir_Inr simp: isdir_def)

lemma mkdir_isdir_mono: "mkdir p m fs = (Inr u, fs') \<Longrightarrow> isdir r fs \<Longrightarrow> isdir r fs'"
  by (auto dest!: mkdir_Inr simp: isdir_def split: option.splits)

lemma write_str_dirs: "dirs (snd (write_str h s fs)) = dirs fs"
  by (simp add: write_str_def Let_def)

lemma writelines_dirs: "dirs (snd (writelines h xs fs)) = dirs fs"
proof (induction xs arbitrary: h fs)
  case Nil
  show ?case by simp
next
  case (Cons x xs)
  obtain h1 fs1 where w: "write_str h x fs = (h1, fs1)" by (cases "write_str h x fs")
  then have "dirs fs1 = dirs fs" using write_str_dirs [of h x fs] by simp
  with w Cons.IH [of h1 fs1] show ?case by simp
qed

lemma copy_lines_dirs: "dirs (snd (copy_lines ls h fs)) = dirs fs"
proof (induction ls arbitrary: h fs)
  case Nil
  show ?case by simp
next
  case (Cons l ls)
  obtain h1 fs1 where w: "writelines h (items (lstrip '';'' l)) fs = (h1, fs1)"
    by (cases "writelines h (items (lstrip '';'' l)) fs")
  then have "dirs fs1 = dirs fs" using writelines_dirs [of h "items (lstrip '';'' l)" fs] by simp
  with w Cons.IH [of h1 fs1] show ?case by simp
qed

lemma open_w_plus_dirs: "dirs (snd (open_w_plus p fs)) = dirs fs"
  by (simp add: open_w_plus_def split: option.splits)

lemma write_default_ini_config_dirs:
  "dirs (snd (write_default_ini_config c filepath fs)) = dirs fs"
proof (cases "open_r (TEMPLATE_INI_FILEPATH c) fs")
  case (Inl e)
  then show ?thesis by (simp add: write_default_ini_config_def)
next
  case (Inr template_file)
  obtain r fs1 where o: "open_w_plus filepath fs = (r, fs1)" by (cases "open_w_plus filepath fs")
  then have d: "dirs fs1 = dirs fs" using open_w_plus_dirs [of filepath fs] by simp
  show ?thesis
  proof (cases r)
    case (Inl e)
    with Inr o d show ?thesis by (simp add: write_default_ini_config_def)
  next
    case new: (Inr new_file)
    obtain content new_file1 where r: "read_all new_file fs1 = (content, new_file1)"
      by (cases "read_all new_file fs1")
    obtain new_file2 fs2 where
      c: "copy_lines (islice (file_lines template_file fs1) 12) new_file1 fs1 = (new_file2, fs2)"
      by (cases "copy_lines (islice (file_lines template_file fs1) 12) new_file1 fs1")
    then have "dirs fs2 = dirs fs1"
      using copy_lines_dirs [of "islice (file_lines template_file fs1) 12" new_file1 fs1] by simp
    with Inr o d new r c show ?thesis by (simp add: write_default_ini_config_def)
  qed
qed

lemma write_default_ini_config_isdir:
  "write_default_ini_config c filepath fs = (r, fs') \<Longrightarrow> isdir p fs \<Longrightarrow> isdir p fs'"
  using write_default_ini_config_dirs [of c filepath fs] by (auto simp: isdir_def split: if_splits)

lemma initialize_configuration_creates_root:
  assumes "initialize_configuration c config_root fs = (Inr v, fs')"
  shows "isdir (case config_root of
                  None \<Rightarrow> DEFAULT_CONFIG_ROOT c
                | Some r \<Rightarrow> if r = [] then DEFAULT_CONFIG_ROOT c else r) fs'"
proof -
  define root where "root = (case config_root of
                  None \<Rightarrow> DEFAULT_CONFIG_ROOT c
                | Some r \<Rightarrow> if r = [] then DEFAULT_CONFIG_ROOT c else r)"
  from assms have "\<not> isdir root fs"
    by (auto simp: initialize_configuration_def root_def Let_def split: if_splits)
  with assms have
    "then_do (mkdir root 493) (\<lambda>u.
       then_do (mkdir (DEFAULT_KEYRING_ROOT c) 448) (\<lambda>u.
       then_do (mkdir (DEFAULT_KNOWN_NODE_DIR c) 493) (\<lambda>u.
       then_do (mkdir (DEFAULT_KNOWN_CERTIFICATES_DIR c) 493) (\<lambda>u.
       then_do (mkdir (DEFAULT_KNOWN_METADATA_DIR c) 493) (\<lambda>u.
       then_do (mkdir (DEFAULT_SEED_NODE_DIR c) 493) (\<lambda>u.
       then_do (mkdir (DEFAULT_SEED_CERTIFICATES_DIR c) 493) (\<lambda>u.
       then_do (mkdir (DEFAULT_SEED_METADATA_DIR c) 493) (\<lambda>u.
       then_do (write_default_ini_config c (DEFAULT_INI_FILEPATH c)) (\<lambda>u fs'.
       (Inr config_root, fs')))))))))) fs = (Inr v, fs')"
    by (simp add: initialize_configuration_def root_def Let_def)
  then obtain u1 fs1 where m1: "mkdir root 493 fs = (Inr u1, fs1)" and
    k1: "then_do (mkdir (DEFAULT_KEYRING_ROOT c) 448) (\<lambda>u.
       then_do (mkdir (DEFAULT_KNOWN_NODE_DIR c) 493) (\<lambda>u.
       then_do (mkdir (DEFAULT_KNOWN_CERTIFICATES_DIR c) 493) (\<lambda>u.
       then_do (mkdir (DEFAULT_KNOWN_METADATA_DIR c) 493) (\<lambda>u.
       then_do (mkdir (DEFAULT_SEED_NODE_DIR c) 493) (\<lambda>u.
       then_do (mkdir (DEFAULT_SEED_CERTIFICATES_DIR c) 493) (\<lambda>u.
       then_do (mkdir (DEFAULT_SEED_METADATA_DIR c) 493) (\<lambda>u.
       then_do (write_default_ini_config c (DEFAULT_INI_FILEPATH c)) (\<lambda>u fs'.
       (Inr config_root, fs'))))))))) fs1 = (Inr v, fs')"
    by (rule then_do_InrE)
  from k1 obtain u2 fs2 where m2: "mkdir (DEFAULT_KEYRING_ROOT c) 448 fs1 = (Inr u2, fs2)" and
    k2: "then_do (mkdir (DEFAULT_KNOWN_NODE_DIR c) 493) (\<lambda>u.
       then_do (mkdir (DEFAULT_KNOWN_CERTIFICATES_DIR c) 493) (\<lambda>u.
       then_do (mkdir (DEFAULT_KNOWN_METADATA_DIR c) 493) (\<lambda>u.
       then_do (mkdir (DEFAULT_SEED_NODE_DIR c) 493) (\<lambda>u.
       then_do (mkdir (DEFAULT_SEED_CERTIFICATES_DIR c) 493) (\<lambda>u.
       then_do (mkdir (DEFAULT_SEED_METADATA_DIR c) 493) (\<lambda>u.
       then_do (write_default_ini_config c (DEFAULT_INI_FILEPATH c)) (\<lambda>u fs'.
       (Inr config_root, fs')))))))) fs2 = (Inr v, fs')"
    by (rule then_do_InrE)
  from k2 obtain u3 fs3 where m3: "mkdir (DEFAULT_KNOWN_NODE_DIR c) 493 fs2 = (Inr u3, fs3)" and
    k3: "then_do (mkdir (DEFAULT_KNOWN_CERTIFICATES_DIR c) 493) (\<lambda>u.
       then_do (mkdir (DEFAULT_KNOWN_METADATA_DIR c) 493) (\<lambda>u.
       then_do (mkdir (DEFAULT_SEED_NODE_DIR c) 493) (\<lambda>u.
       then_do (mkdir (DEFAULT_SEED_CERTIFICATES_DIR c) 493) (\<lambda>u.
       then_do (mkdir (DEFAULT_SEED_METADATA_DIR c) 493) (\<lambda>u.
       then_do (write_default_ini_config c (DEFAULT_INI_FILEPATH c)) (\<lambda>u fs'.
       (Inr config_root, fs'))))))) fs3 = (Inr v, fs')"
    by (rule then_do_InrE)
  from k3 obtain u4 fs4 where m4: "mkdir (DEFAULT_KNOWN_CERTIFICATES_DIR c) 493 fs3 = (Inr u4, fs4)" and
    k4: "then_do (mkdir (DEFAULT_KNOWN_METADATA_DIR c) 493) (\<lambda>u.
       then_do (mkdir (DEFAULT_SEED_NODE_DIR c) 493) (\<lambda>u.
       then_do (mkdir (DEFAULT_SEED_CERTIFICATES_DIR c) 493) (\<lambda>u.
       then_do (mkdir (DEFAULT_SEED_METADATA_DIR c) 493) (\<lambda>u.
       then_do (write_default_ini_config c (DEFAULT_INI_FILEPATH c)) (\<lambda>u fs'.
       (Inr config_root, fs')))))) fs4 = (Inr v, fs')"
    by (rule then_do_InrE)
  from k4 obtain u5 fs5 where m5: "mkdir (DEFAULT_KNOWN_METADATA_DIR c) 493 fs4 = (Inr u5, fs5)" and
    k5: "then_do (mkdir (DEFAULT_SEED_NODE_DIR c) 493) (\<lambda>u.
       then_do (mkdir (DEFAULT_SEED_CERTIFICATES_DIR c) 493) (\<lambda>u.
       then_do (mkdir (DEFAULT_SEED_METADATA_DIR c) 493) (\<lambda>u.
       then_do (write_default_ini_config c (DEFAULT_INI_FILEPATH c)) (\<lambda>u fs'.
       (Inr config_root, fs'))))) fs5 = (Inr v, fs')"
    by (rule then_do_InrE)
  from k5 obtain u6 fs6 where m6: "mkdir (DEFAULT_SEED_NODE_DIR c) 493 fs5 = (Inr u6, fs6)" and
    k6: "then_do (mkdir (DEFAULT_SEED_CERTIFICATES_DIR c) 493) (\<lambda>u.
       then_do (mkdir (DEFAULT_SEED_METADATA_DIR c) 493) (\<lambda>u.
       then_do (write_default_ini_config c (DEFAULT_INI_FILEPATH c)) (\<lambda>u fs'.
       (Inr config_root, fs')))) fs6 = (Inr v, fs')"
    by (rule then_do_InrE)
  from k6 obtain u7 fs7 where m7: "mkdir (DEFAULT_SEED_CERTIFICATES_DIR c) 493 fs6 = (Inr u7, fs7)" and
    k7: "then_do (mkdir (DEFAULT_SEED_METADATA_DIR c) 493) (\<lambda>u.
       then_do (write_default_ini_config c (DEFAULT_INI_FILEPATH c)) (\<lambda>u fs'.
       (Inr config_root, fs'))) fs7 = (Inr v, fs')"
    by (rule then_do_InrE)
  from k7 obtain u8 fs8 where m8: "mkdir (DEFAULT_SEED_METADATA_DIR c) 493 fs7 = (Inr u8, fs8)" and
    k8: "then_do (write_default_ini_config c (DEFAULT_INI_FILEPATH c)) (\<lambda>u fs'.
       (Inr config_root, fs')) fs8 = (Inr v, fs')"
    by (rule then_do_InrE)
  from k8 obtain u9 where m9: "write_default_ini_config c (DEFAULT_INI_FILEPATH c) fs8 = (Inr u9, fs')"
    by (auto elim: then_do_InrE)
  have "isdir root fs1" using m1 by (rule mkdir_isdir_self)
  with m2 have "isdir root fs2" by (rule mkdir_isdir_mono)
  with m3 have "isdir root fs3" by (rule mkdir_isdir_mono)
  with m4 have "isdir root fs4" by (rule mkdir_isdir_mono)
  with m5 have "isdir root fs5" by (rule mkdir_isdir_mono)
  with m6 have "isdir root fs6" by (rule mkdir_isdir_mono)
  with m7 have "isdir root fs7" by (rule mkdir_isdir_mono)
  with m8 have "isdir root fs8" by (rule mkdir_isdir_mono)
  with m9 have "isdir root fs'" by (rule write_default_ini_config_isdir)
  then show ?thesis by (simp add: root_def)
qed

text \<open>
  C1 (the code departs from the claim): called without a root on a filesystem where the
  default root is still to be created, \<^verbatim>\<open>initialize_configuration\<close> creates the
  default root and returns \<^verbatim>\<open>None\<close>, its argument, not the default root it used.
\<close>

theorem initialize_configuration_returns_argument:
  "fst (initialize_configuration example_constants None example_filesystem) = Inr None
   \<and> isdir (DEFAULT_CONFIG_ROOT example_constants)
        (snd (initialize_configuration example_constants None example_filesystem))
   \<and> \<not> isdir (DEFAULT_CONFIG_ROOT example_constants) example_filesystem"
  by (simp add: initialize_configuration_def then_do_def mkdir_def path_exists_def isdir_def
      write_default_ini_config_def open_r_def open_w_plus_def read_all_def file_text_def
      example_constants_def example_filesystem_def Let_def case_prod_beta copy_lines_dirs)

text \<open>
  C9: when the root (the argument, or the default root when the argument is
  \<^verbatim>\<open>None\<close>) is a directory, \<^verbatim>\<open>initialize_configuration\<close> raises the configuration
  error and leaves the filesystem as it is; and after a call that returned, a second
  call with the same argument on the filesystem the first one left raises the
  configuration error and changes nothing.
\<close>

theorem initialize_configuration_existing_root:
  "(isdir (case config_root of None \<Rightarrow> DEFAULT_CONFIG_ROOT c | Some r \<Rightarrow> r) fs \<longrightarrow>
      initialize_configuration c config_root fs =
        (Inl (NucypherConfigurationError
           (''There are existing nucypher configuration files at '' @ format_arg config_root)), fs))
   \<and> (fst (initialize_configuration c config_root fs) = Inr v \<longrightarrow>
      initialize_configuration c config_root (snd (initialize_configuration c config_root fs)) =
        (Inl (NucypherConfigurationError
           (''There are existing nucypher configuration files at '' @ format_arg config_root)),
         snd (initialize_configuration c config_root fs)))"
proof -
  have raises: "initialize_configuration c config_root s =
        (Inl (NucypherConfigurationError
           (''There are existing nucypher configuration files at '' @ format_arg config_root)), s)"
    if "isdir (case config_root of
                 None \<Rightarrow> DEFAULT_CONFIG_ROOT c
               | Some r \<Rightarrow> if r = [] then DEFAULT_CONFIG_ROOT c else r) s" for s
    using that by (simp add: initialize_configuration_def Let_def)
  have first: "isdir (case config_root of
                 None \<Rightarrow> DEFAULT_CONFIG_ROOT c
               | Some r \<Rightarrow> if r = [] then DEFAULT_CONFIG_ROOT c else r) fs"
    if "isdir (case config_root of None \<Rightarrow> DEFAULT_CONFIG_ROOT c | Some r \<Rightarrow> r) fs"
    using that by (cases config_root) (auto simp: isdir_def)
  have second: "isdir (case config_root of
                 None \<Rightarrow> DEFAULT_CONFIG_ROOT c
               | Some r \<Rightarrow> if r = [] then DEFAULT_CONFIG_ROOT c else r)
               (snd (initialize_configuration c config_root fs))"
    if "fst (initialize_configuration c config_root fs) = Inr v"
  proof -
    from that have "initialize_configuration c config_root fs =
        (Inr v, snd (initialize_configuration c config_root fs))"
      by (cases "initialize_configuration c config_root fs") simp
    then show ?thesis by (rule initialize_configuration_creates_root)
  qed
  show ?thesis using raises [OF first] raises [OF second] by blast
qed

theorem initialize_configuration_existing_root_witness:
  "isdir ''/cfg'' example_existing_root
   \<and> initialize_configuration example_constants (Some ''/cfg'') example_existing_root =
       (Inl (NucypherConfigurationError
          ''There are existing nucypher configuration files at /cfg''), example_existing_root)
   \<and> fst (initialize_configuration example_constants (Some ''/cfg'') example_filesystem) =
       Inr (Some ''/cfg'')
   \<and> fst (initialize_configuration example_constants (Some ''/cfg'')
        (snd (initialize_configuration example_constants (Some ''/cfg'') example_filesystem))) =
       Inl (NucypherConfigurationError
          ''There are existing nucypher configuration files at /cfg'')"
proof -
  have d: "isdir ''/cfg'' example_existing_root"
    by (simp add: isdir_def example_existing_root_def)
  have r: "fst (initialize_configuration example_constants (Some ''/cfg'') example_filesystem) =
             Inr (Some ''/cfg'')"
    by (simp add: initialize_configuration_def then_do_def mkdir_def path_exists_def isdir_def
        write_default_ini_config_def open_r_def open_w_plus_def read_all_def file_text_def
        example_constants_def example_filesystem_def Let_def case_prod_beta)
  show ?thesis
    using d r
      initialize_configuration_existing_root [where config_root = "Some ''/cfg''"
        and c = example_constants and fs = example_existing_root]
      initialize_configuration_existing_root [where config_root = "Some ''/cfg''"
        and c = example_constants and fs = example_filesystem and v = "Some ''/cfg''"]
    by (simp add: format_arg_def)
qed

text \<open>
  C10: with the argument \<^verbatim>\<open>None\<close>, the message of the configuration error of
  \<^verbatim>\<open>initialize_configuration\<close> (the default root is a directory) and that of
  \<^verbatim>\<open>check_config_tree\<close> (the default root does not exist) end in the text
  \<^verbatim>\<open>None\<close> of the argument, whatever the default root is.
\<close>

theorem none_argument_in_messages:
  "(isdir (DEFAULT_CONFIG_ROOT c) fs \<longrightarrow>
      fst (initialize_configuration c None fs) =
        Inl (NucypherConfigurationError
          ''There are existing nucypher configuration files at None''))
   \<and> (\<not> path_exists (DEFAULT_CONFIG_ROOT c) fs' \<longrightarrow>
      check_config_tree c None fs' =
        Inl (NucypherConfigurationError
          ''No Nucypher configuration directory found at None.''))"
  by (simp add: initialize_configuration_def check_config_tree_def format_arg_def)

theorem none_argument_in_messages_witness:
  "isdir (DEFAULT_CONFIG_ROOT example_constants) example_existing_root
   \<and> fst (initialize_configuration example_constants None example_existing_root) =
        Inl (NucypherConfigurationError
          ''There are existing nucypher configuration files at None'')
   \<and> \<not> path_exists (DEFAULT_CONFIG_ROOT example_constants) example_filesystem
   \<and> check_config_tree example_constants None example_filesystem =
        Inl (NucypherConfigurationError
          ''No Nucypher configuration directory found at None.'')"
proof -
  have d: "isdir (DEFAULT_CONFIG_ROOT example_constants) example_existing_root"
    by (simp add: isdir_def example_existing_root_def example_constants_def)
  have e: "\<not> path_exists (DEFAULT_CONFIG_ROOT example_constants) example_filesystem"
    by (simp add: path_exists_def isdir_def example_filesystem_def example_constants_def)
  show ?thesis
    using d e none_argument_in_messages [where c = example_constants
        and fs = example_existing_root and fs' = example_filesystem]
    by simp
qed

end
